theory Spec2Isabelle
  imports Main "HOL-Library.Char_ord" "HOL-Library.List_Lexorder" "HOL-Library.Multiset"
begin

section \<open>Text as Python sees it\<close>

text \<open>
  A Python \<^verbatim>\<open>str\<close> is a sequence of code points. The model uses \<^typ>\<open>string\<close>: a
  \<^typ>\<open>char\<close> stands for the code point of the same number, so the model covers text
  over the code points 0 to 255. The character classes below are the ones Python 3
  uses on that range (\<^verbatim>\<open>\d\<close> is the Unicode category Nd, \<^verbatim>\<open>\w\<close> is
  \<^verbatim>\<open>str.isalnum\<close> or an underscore, \<^verbatim>\<open>str.strip\<close> removes \<^verbatim>\<open>str.isspace\<close>
  characters).
\<close>

definition code_point :: "char \<Rightarrow> nat" where
  "code_point c = of_char c"

definition newline :: char where
  "newline = CHR 0x0A"

definition is_decimal :: "char \<Rightarrow> bool" where
  "is_decimal c = (let n = code_point c in 0x30 \<le> n \<and> n \<le> 0x39)"

definition is_upper_char :: "char \<Rightarrow> bool" where
  "is_upper_char c =
     (let n = code_point c in
        (0x41 \<le> n \<and> n \<le> 0x5A) \<or> (0xC0 \<le> n \<and> n \<le> 0xD6) \<or> (0xD8 \<le> n \<and> n \<le> 0xDE))"

definition is_alnum :: "char \<Rightarrow> bool" where
  "is_alnum c =
     (let n = code_point c in
        (0x30 \<le> n \<and> n \<le> 0x39) \<or> (0x41 \<le> n \<and> n \<le> 0x5A) \<or> (0x61 \<le> n \<and> n \<le> 0x7A) \<or>
        n = 0xAA \<or> n = 0xB2 \<or> n = 0xB3 \<or> n = 0xB5 \<or> n = 0xB9 \<or> n = 0xBA \<or>
        (0xBC \<le> n \<and> n \<le> 0xBE) \<or> (0xC0 \<le> n \<and> n \<le> 0xD6) \<or>
        (0xD8 \<le> n \<and> n \<le> 0xF6) \<or> 0xF8 \<le> n)"

definition is_word :: "char \<Rightarrow> bool" where
  "is_word c = (is_alnum c \<or> c = CHR ''_'')"

definition is_space :: "char \<Rightarrow> bool" where
  "is_space c =
     (let n = code_point c in
        (0x09 \<le> n \<and> n \<le> 0x0D) \<or> (0x1C \<le> n \<and> n \<le> 0x20) \<or> n = 0x85 \<or> n = 0xA0)"

text \<open>The cased characters: the ones after which \<^verbatim>\<open>str.title\<close>
  lower-cases.\<close>

definition is_cased :: "char \<Rightarrow> bool" where
  "is_cased c =
     (let n = code_point c in
        (0x41 \<le> n \<and> n \<le> 0x5A) \<or> (0x61 \<le> n \<and> n \<le> 0x7A) \<or>
        n = 0xAA \<or> n = 0xB5 \<or> n = 0xBA \<or> (0xC0 \<le> n \<and> n \<le> 0xD6) \<or>
        (0xD8 \<le> n \<and> n \<le> 0xF6) \<or> 0xF8 \<le> n)"

definition lower_char :: "char \<Rightarrow> char" where
  "lower_char c = (if is_upper_char c then char_of (code_point c + 0x20) else c)"

text \<open>
  The title-case form of one character. It is a string because U+00DF becomes
  \<^verbatim>\<open>Ss\<close>. The title-case forms of U+00B5 and U+00FF are U+039C and U+0178, which
  lie above the code points a \<^typ>\<open>char\<close> can hold: for these two characters the result
  is \<open>None\<close>, and the model says nothing about the text Python builds.
\<close>

definition title_char :: "char \<Rightarrow> string option" where
  "title_char c =
     (let n = code_point c in
        if (0x61 \<le> n \<and> n \<le> 0x7A) \<or> (0xE0 \<le> n \<and> n \<le> 0xF6) \<or> (0xF8 \<le> n \<and> n \<le> 0xFE)
        then Some [char_of (n - 0x20)]
        else if n = 0xDF then Some ''Ss''
        else if n = 0xB5 \<or> n = 0xFF then None
        else Some [c])"

text \<open>\<^verbatim>\<open>s.strip()\<close>, \<^verbatim>\<open>s.lower()\<close> and \<^verbatim>\<open>s.title()\<close>. Python's \<^verbatim>\<open>title\<close> walks
  the string once: a character that follows a cased character is lower-cased, any
  other character is title-cased. \<open>title s\<close> is \<open>None\<close> when the title-cased text
  holds a code point above 255.\<close>

definition strip :: "string \<Rightarrow> string" where
  "strip s = rev (dropWhile is_space (rev (dropWhile is_space s)))"

definition lower :: "string \<Rightarrow> string" where
  "lower s = map lower_char s"

fun title_from :: "bool \<Rightarrow> string \<Rightarrow> string option" where
  "title_from previous_is_cased [] = Some []"
| "title_from previous_is_cased (c # cs) =
     (case (if previous_is_cased then Some [lower_char c] else title_char c) of
        None \<Rightarrow> None
      | Some mapped \<Rightarrow>
          (case title_from (is_cased c) cs of
             None \<Rightarrow> None
           | Some rest \<Rightarrow> Some (mapped @ rest)))"

definition title :: "string \<Rightarrow> string option" where
  "title s = title_from False s"

section \<open>The two regular expressions\<close>

text \<open>
  \<^verbatim>\<open>PHONE_RE = re.compile(r'^\d{10}$')\<close> and
  \<^verbatim>\<open>EMAIL_RE = re.compile(r'^[\w\.-]+@[\w\.-]+\.\w+$')\<close>.
  The patterns use character classes, \<^verbatim>\<open>+\<close>, \<^verbatim>\<open>{n}\<close> and the two anchors; the
  matcher below covers exactly that fragment. A class is a list of alternatives.
\<close>

datatype atom = Digit | Word | Lit char

datatype item = Bol | Eol | One "atom list" | Plus "atom list" | Times "atom list" nat

fun atom_matches :: "atom \<Rightarrow> char \<Rightarrow> bool" where
  "atom_matches Digit c = is_decimal c"
| "atom_matches Word c = is_word c"
| "atom_matches (Lit l) c = (c = l)"

definition in_class :: "atom list \<Rightarrow> char \<Rightarrow> bool" where
  "in_class cls c = list_ex (\<lambda>a. atom_matches a c) cls"

text \<open>
  \<open>match_here items at_start s\<close>: some prefix of \<open>s\<close> matches \<open>items\<close>; \<open>at_start\<close> says
  that nothing has been consumed yet. Without \<^verbatim>\<open>re.MULTILINE\<close>, \<^verbatim>\<open>^\<close> matches at the
  start of the string only, and \<^verbatim>\<open>$\<close> matches at the end of the string and also just
  before a newline that is the last character of the string.
\<close>

fun match_here :: "item list \<Rightarrow> bool \<Rightarrow> string \<Rightarrow> bool" where
  "match_here [] at_start s = True"
| "match_here (Bol # r) at_start s = (at_start \<and> match_here r at_start s)"
| "match_here (Eol # r) at_start s = ((s = [] \<or> s = [newline]) \<and> match_here r at_start s)"
| "match_here (One cls # r) at_start [] = False"
| "match_here (One cls # r) at_start (c # s) = (in_class cls c \<and> match_here r False s)"
| "match_here (Plus cls # r) at_start [] = False"
| "match_here (Plus cls # r) at_start (c # s) =
     (in_class cls c \<and> (match_here (Plus cls # r) False s \<or> match_here r False s))"
| "match_here (Times cls 0 # r) at_start s = match_here r at_start s"
| "match_here (Times cls (Suc n) # r) at_start [] = False"
| "match_here (Times cls (Suc n) # r) at_start (c # s) =
     (in_class cls c \<and> match_here (Times cls n # r) False s)"

text \<open>\<^verbatim>\<open>pattern.match(s)\<close> tries the pattern at position 0 only; \<^verbatim>\<open>bool(...)\<close> of
  the result says whether there is a match.\<close>

definition re_match :: "item list \<Rightarrow> string \<Rightarrow> bool" where
  "re_match pattern s = match_here pattern True s"

definition PHONE_RE :: "item list" where
  "PHONE_RE = [Bol, Times [Digit] 10, Eol]"

definition EMAIL_RE :: "item list" where
  "EMAIL_RE =
     [Bol, Plus [Word, Lit CHR ''.'', Lit CHR ''-''], One [Lit CHR ''@''],
      Plus [Word, Lit CHR ''.'', Lit CHR ''-''], One [Lit CHR ''.''], Plus [Word], Eol]"

definition is_valid_phone :: "string \<Rightarrow> bool" where
  "is_valid_phone p = re_match PHONE_RE p"

definition is_valid_email :: "string \<Rightarrow> bool" where
  "is_valid_email e = (re_match EMAIL_RE e \<or> e = [])"

section \<open>Values, dictionaries and exceptions\<close>

text \<open>
  \<^verbatim>\<open>json.load\<close> returns \<^verbatim>\<open>None\<close>, a bool, an int, a float, a str, a list or a dict.
  A float is \<open>m * 2 ^ e\<close>, an infinity or a NaN. A dict is an association list in
  insertion order; a Python dict never holds a key twice.
\<close>

datatype pyfloat = Finite int int | Infinite bool | NaN

datatype json =
    JNull
  | JBool bool
  | JInt int
  | JFloat pyfloat
  | JStr string
  | JArr "json list"
  | JObj "(string \<times> json) list"

type_synonym dict = "(string \<times> json) list"

datatype py_error =
    JSONDecodeError
  | OSError
  | UnicodeDecodeError
  | RecursionError
  | AttributeError
  | TypeError
  | KeyError

text \<open>Truth value of a Python object, as \<^verbatim>\<open>or\<close> and \<^verbatim>\<open>not\<close> use it.\<close>

fun truthy :: "json \<Rightarrow> bool" where
  "truthy JNull = False"
| "truthy (JBool b) = b"
| "truthy (JInt i) = (i \<noteq> 0)"
| "truthy (JFloat f) = (case f of Finite m e \<Rightarrow> m \<noteq> 0 | Infinite negative \<Rightarrow> True | NaN \<Rightarrow> True)"
| "truthy (JStr s) = (s \<noteq> [])"
| "truthy (JArr xs) = (xs \<noteq> [])"
| "truthy (JObj d) = (d \<noteq> [])"

text \<open>\<^verbatim>\<open>k in d\<close>, \<^verbatim>\<open>d[k] = v\<close> (an existing key keeps its place, a new key goes to
  the end) and \<^verbatim>\<open>d.pop(k, None)\<close>.\<close>

definition dict_keys :: "dict \<Rightarrow> string list" where
  "dict_keys d = map fst d"

definition dict_contains :: "string \<Rightarrow> dict \<Rightarrow> bool" where
  "dict_contains k d = (k \<in> set (dict_keys d))"

fun dict_set :: "string \<Rightarrow> json \<Rightarrow> dict \<Rightarrow> dict" where
  "dict_set k v [] = [(k, v)]"
| "dict_set k v ((k', v') # d) = (if k' = k then (k, v) # d else (k', v') # dict_set k v d)"

definition dict_pop :: "string \<Rightarrow> dict \<Rightarrow> dict" where
  "dict_pop k d = filter (\<lambda>(k', v). k' \<noteq> k) d"

text \<open>\<^verbatim>\<open>v.get(k, fallback)\<close> and \<^verbatim>\<open>v.lower()\<close> on a loaded value: only a dict has
  \<^verbatim>\<open>get\<close> and only a str has \<^verbatim>\<open>lower\<close>; anything else raises AttributeError.\<close>

definition py_get :: "json \<Rightarrow> string \<Rightarrow> json \<Rightarrow> py_error + json" where
  "py_get v k fallback =
     (case v of
        JObj d \<Rightarrow> Inr (case map_of d k of None \<Rightarrow> fallback | Some x \<Rightarrow> x)
      | _ \<Rightarrow> Inl AttributeError)"

definition py_lower :: "json \<Rightarrow> py_error + string" where
  "py_lower v = (case v of JStr s \<Rightarrow> Inr (lower s) | _ \<Rightarrow> Inl AttributeError)"

text \<open>\<^verbatim>\<open>v.get("name","").lower()\<close> and \<^verbatim>\<open>(v.get("email") or "").lower()\<close>.\<close>

definition name_lower :: "json \<Rightarrow> py_error + string" where
  "name_lower v =
     (case py_get v ''name'' (JStr []) of Inl e \<Rightarrow> Inl e | Inr x \<Rightarrow> py_lower x)"

definition email_lower :: "json \<Rightarrow> py_error + string" where
  "email_lower v =
     (case py_get v ''email'' JNull of
        Inl e \<Rightarrow> Inl e
      | Inr x \<Rightarrow> py_lower (if truthy x then x else JStr []))"

text \<open>
  \<^verbatim>\<open>int(s)\<close> on a line of text: surrounding whitespace is dropped, one sign is allowed,
  and the digits may be separated by single underscores. \<open>None\<close> is ValueError, which
  the interpreter (CPython 3.11, \<^verbatim>\<open>sys.int_max_str_digits\<close> at its default) also raises
  for a line of more than 4300 digits.
\<close>

definition int_max_str_digits :: nat where
  "int_max_str_digits = 4300"

fun parse_digits :: "bool \<Rightarrow> nat \<Rightarrow> string \<Rightarrow> nat option" where
  "parse_digits after_digit acc [] = (if after_digit then Some acc else None)"
| "parse_digits after_digit acc (c # cs) =
     (if is_decimal c then parse_digits True (acc * 10 + (code_point c - 0x30)) cs
      else if c = CHR ''_'' \<and> after_digit then parse_digits False acc cs
      else None)"

definition py_int :: "string \<Rightarrow> int option" where
  "py_int s =
     (if int_max_str_digits < length (filter is_decimal s) then None
      else
        case strip s of
          [] \<Rightarrow> None
        | c # cs \<Rightarrow>
            if c = CHR ''-'' then map_option (\<lambda>n. - int n) (parse_digits False 0 cs)
            else if c = CHR ''+'' then map_option int (parse_digits False 0 cs)
            else map_option int (parse_digits False 0 (c # cs)))"

section \<open>The contacts file\<close>

text \<open>
  What the program can observe of \<^verbatim>\<open>contacts.json\<close>: the path does not exist, or it
  exists and opening it and running \<^verbatim>\<open>json.load\<close> on it either raises or returns a
  value. \<^verbatim>\<open>OSError\<close> (the same class as \<^verbatim>\<open>IOError\<close>) stands for a file that cannot be
  opened or read, \<^verbatim>\<open>JSONDecodeError\<close> for text that is not JSON,
  \<^verbatim>\<open>UnicodeDecodeError\<close> for bytes that are not UTF-8 and \<^verbatim>\<open>RecursionError\<close> for
  nesting deeper than the interpreter allows.
\<close>

datatype disk_file = Missing | Present "py_error + json"

definition safe_load_contacts :: "disk_file \<Rightarrow> py_error + dict" where
  "safe_load_contacts file =
     (case file of
        Missing \<Rightarrow> Inr []
      | Present (Inl e) \<Rightarrow>
          if e = JSONDecodeError \<or> e = OSError then Inr [] else Inl e
      | Present (Inr loaded) \<Rightarrow>
          (let data = (if truthy loaded then loaded else JObj [])
           in case data of JObj d \<Rightarrow> Inr d | _ \<Rightarrow> Inr []))"

section \<open>The operations\<close>

text \<open>
  Each operation of the program loads the store, reads its answers with \<^verbatim>\<open>input\<close>,
  prints one message and returns, or hands the changed store to
  \<^verbatim>\<open>safe_save_contacts\<close>. In the model an operation is a function of the loaded
  store \<open>contacts\<close> and of the lines typed at its prompts, in the order of the prompts;
  a prompt that is not reached ignores its line. The messages carry the names of the
  error kinds: \<open>EmptyName\<close> is \<^verbatim>\<open>Name required!\<close>, \<open>EmptyPhone\<close> is
  \<^verbatim>\<open>Phone required!\<close>, \<open>InvalidPhone\<close> is \<^verbatim>\<open>Phone must be 10 digits only!\<close> or
  \<^verbatim>\<open>Invalid phone!\<close>, \<open>DuplicatePhone\<close> is \<^verbatim>\<open>Phone already exists!\<close>,
  \<open>InvalidEmail\<close> is \<^verbatim>\<open>Invalid email format!\<close> or \<^verbatim>\<open>Invalid email!\<close>, \<open>NotFound\<close> is
  \<^verbatim>\<open>No contact found.\<close>, \<open>NotANumber\<close> is \<^verbatim>\<open>Please enter a valid number!\<close> and
  \<open>NoContacts\<close> is the warning each operation prints for an empty store.
\<close>

datatype message =
    EmptyName
  | EmptyPhone
  | InvalidPhone
  | DuplicatePhone
  | InvalidEmail
  | NoContacts
  | InvalidChoice
  | Cancelled
  | NotFound
  | InvalidSelection
  | NotANumber
  | ContactAdded
  | ContactDeleted
  | ContactUpdated
  | AllRemoved

text \<open>
  How an operation ends: an exception leaves it, or it prints a message and returns
  without saving, or it prints the given contacts as numbered blocks, or it hands a
  store to \<^verbatim>\<open>safe_save_contacts\<close> and prints a message. \<open>Unrepresented\<close> is not an
  outcome of the program: it marks the runs in which the program stores a title-cased
  name with a code point above 255, a name the strings of the model cannot hold, and
  which the model therefore does not follow to their end.
\<close>

datatype op_result =
    Raised py_error
  | Msg message
  | Shown dict
  | Saved dict message
  | Unrepresented

definition add_contact :: "dict \<Rightarrow> string \<Rightarrow> string \<Rightarrow> string \<Rightarrow> op_result" where
  "add_contact contacts name_in phone_in email_in =
     (let name = strip name_in in
      if name = [] then Msg EmptyName
      else
        let phone = strip phone_in in
        if phone = [] then Msg EmptyPhone
        else if \<not> is_valid_phone phone then Msg InvalidPhone
        else if dict_contains phone contacts then Msg DuplicatePhone
        else
          let email = strip email_in in
          if email \<noteq> [] \<and> \<not> is_valid_email email then Msg InvalidEmail
          else
            case title (strip name) of
              None \<Rightarrow> Unrepresented
            | Some titled \<Rightarrow>
                Saved
                  (dict_set phone (JObj [(''name'', JStr titled), (''email'', JStr email)]) contacts)
                  ContactAdded)"

text \<open>\<^verbatim>\<open>_print_contact_block\<close> and the match lines of delete and update call
  \<^verbatim>\<open>info.get\<close>, which only a dict has.\<close>

definition is_dict :: "json \<Rightarrow> bool" where
  "is_dict v = (case v of JObj d \<Rightarrow> True | _ \<Rightarrow> False)"

definition print_contact_blocks :: "dict \<Rightarrow> op_result" where
  "print_contact_blocks items =
     (if list_all (\<lambda>(phone, info). is_dict info) items then Shown items
      else Raised AttributeError)"

text \<open>
  \<^verbatim>\<open>sorted(contacts.items(), key=lambda kv: kv[1].get("name","").lower())\<close>: the keys of
  all items are computed first, then the items are sorted by key with a stable sort.
  Strings compare by code point, the first difference deciding and a proper prefix
  coming first.
\<close>

fun sort_keys :: "dict \<Rightarrow> py_error + string list" where
  "sort_keys [] = Inr []"
| "sort_keys ((phone, info) # kvs) =
     (case name_lower info of
        Inl e \<Rightarrow> Inl e
      | Inr k \<Rightarrow> (case sort_keys kvs of Inl e \<Rightarrow> Inl e | Inr ks \<Rightarrow> Inr (k # ks)))"

definition sorted_by_name :: "dict \<Rightarrow> py_error + dict" where
  "sorted_by_name items =
     (case sort_keys items of
        Inl e \<Rightarrow> Inl e
      | Inr ks \<Rightarrow> Inr (map snd (sort_key fst (zip ks items))))"

definition list_contacts :: "dict \<Rightarrow> op_result" where
  "list_contacts contacts =
     (if contacts = [] then Msg NoContacts
      else case sorted_by_name contacts of
             Inl e \<Rightarrow> Raised e
           | Inr items \<Rightarrow> print_contact_blocks items)"

text \<open>The menu of four choices that search, delete and update print (update prints it
  twice): anything but 1 to 4 is an invalid choice, 4 cancels.\<close>

definition menu_choice :: "string \<Rightarrow> op_result + string" where
  "menu_choice line =
     (let choice = strip line in
      if choice \<notin> set [''1'', ''2'', ''3'', ''4''] then Inl (Msg InvalidChoice)
      else if choice = ''4'' then Inl (Msg Cancelled)
      else Inr choice)"

text \<open>A comprehension \<^verbatim>\<open>for p, v in contacts.items() if cond\<close>: the items that satisfy
  the condition, in the order of the dict; an exception in the condition ends it.\<close>

fun select_items :: "(string \<Rightarrow> json \<Rightarrow> py_error + bool) \<Rightarrow> dict \<Rightarrow> py_error + dict" where
  "select_items cond [] = Inr []"
| "select_items cond ((p, v) # kvs) =
     (case cond p v of
        Inl e \<Rightarrow> Inl e
      | Inr b \<Rightarrow>
          (case select_items cond kvs of
             Inl e \<Rightarrow> Inl e
           | Inr rest \<Rightarrow> Inr (if b then (p, v) # rest else rest)))"

text \<open>
  The block that search, delete and update share word for word: read the query for the
  chosen criterion, validate it, collect the matches. \<open>choice\<close> is 1, 2 or 3.
\<close>

definition find_matches :: "dict \<Rightarrow> string \<Rightarrow> string \<Rightarrow> op_result + dict" where
  "find_matches contacts choice q_in =
     (if choice = ''1'' then
        (let q = strip q_in in
         if \<not> is_valid_phone q then Inl (Msg InvalidPhone)
         else map_sum Raised id (select_items (\<lambda>p v. Inr (p = q)) contacts))
      else if choice = ''2'' then
        (let q = lower (strip q_in) in
         if q = [] then Inl (Msg EmptyName)
         else map_sum Raised id
                (select_items (\<lambda>p v. map_sum id (\<lambda>n. n = q) (name_lower v)) contacts))
      else
        (let q = lower (strip q_in) in
         if \<not> is_valid_email q \<or> \<not> q = [] then Inl (Msg InvalidEmail)
         else map_sum Raised id
                (select_items (\<lambda>p v. map_sum id (\<lambda>e. e = q) (email_lower v)) contacts)))"

definition search_contact :: "dict \<Rightarrow> string \<Rightarrow> string \<Rightarrow> op_result" where
  "search_contact contacts choice_in q_in =
     (if contacts = [] then Msg NoContacts
      else case menu_choice choice_in of
             Inl r \<Rightarrow> r
           | Inr choice \<Rightarrow>
               (case find_matches contacts choice q_in of
                  Inl r \<Rightarrow> r
                | Inr res \<Rightarrow> if res = [] then Msg NotFound else print_contact_blocks res))"

text \<open>
  Delete: after the matches are printed (one line each, through \<^verbatim>\<open>info.get\<close>), the
  next line typed is the \<^verbatim>\<open>yes\<close> of the confirmation when there is one match, and the
  number of the contact to delete when there are several.
\<close>

definition pick_numbered :: "dict \<Rightarrow> string \<Rightarrow> op_result + string" where
  "pick_numbered items line =
     (case py_int (strip line) of
        None \<Rightarrow> Inl (Msg NotANumber)
      | Some sel \<Rightarrow>
          if \<not> (1 \<le> sel \<and> sel \<le> int (length items)) then Inl (Msg InvalidSelection)
          else Inr (fst (items ! nat (sel - 1))))"

definition delete_contact :: "dict \<Rightarrow> string \<Rightarrow> string \<Rightarrow> string \<Rightarrow> op_result" where
  "delete_contact contacts choice_in q_in answer_in =
     (if contacts = [] then Msg NoContacts
      else case menu_choice choice_in of
             Inl r \<Rightarrow> r
           | Inr choice \<Rightarrow>
               (case find_matches contacts choice q_in of
                  Inl r \<Rightarrow> r
                | Inr items \<Rightarrow>
                    if items = [] then Msg NotFound
                    else if \<not> list_all (\<lambda>(phone, info). is_dict info) items
                    then Raised AttributeError
                    else if length items = 1 then
                      (if lower (strip answer_in) \<noteq> ''yes'' then Msg Cancelled
                       else Saved (dict_pop (fst (items ! 0)) contacts) ContactDeleted)
                    else
                      (case pick_numbered items answer_in of
                         Inl r \<Rightarrow> r
                       | Inr phone \<Rightarrow> Saved (dict_pop phone contacts) ContactDeleted)))"

text \<open>
  Update, first half (\<^verbatim>\<open># Find contact first\<close>): the key \<open>phone_sel\<close> of the
  contact to update. A single match is taken as it is; several matches are printed and
  one is picked by number.
\<close>

definition select_contact :: "dict \<Rightarrow> string \<Rightarrow> string \<Rightarrow> string \<Rightarrow> op_result + string" where
  "select_contact contacts ch_in q_in sel_in =
     (case menu_choice ch_in of
        Inl r \<Rightarrow> Inl r
      | Inr ch \<Rightarrow>
          (case find_matches contacts ch q_in of
             Inl r \<Rightarrow> Inl r
           | Inr items \<Rightarrow>
               if items = [] then Inl (Msg NotFound)
               else if length items = 1 then Inr (fst (items ! 0))
               else if \<not> list_all (\<lambda>(phone, info). is_dict info) items
               then Inl (Raised AttributeError)
               else pick_numbered items sel_in))"

text \<open>
  Update, second half (\<^verbatim>\<open># Now update fields\<close>). \<^verbatim>\<open>contacts[phone_sel][k] = x\<close>
  changes the contact in place and needs it to be a dict;
  \<^verbatim>\<open>contacts[new_phone] = contacts.pop(phone_sel)\<close> removes the entry and stores its
  value under the new key.
\<close>

definition set_field :: "dict \<Rightarrow> string \<Rightarrow> string \<Rightarrow> json \<Rightarrow> op_result" where
  "set_field contacts phone_sel k x =
     (case map_of contacts phone_sel of
        None \<Rightarrow> Raised KeyError
      | Some (JObj d) \<Rightarrow> Saved (dict_set phone_sel (JObj (dict_set k x d)) contacts) ContactUpdated
      | Some _ \<Rightarrow> Raised TypeError)"

definition update_field :: "dict \<Rightarrow> string \<Rightarrow> string \<Rightarrow> string \<Rightarrow> op_result" where
  "update_field contacts phone_sel fld new_in =
     (if fld = ''1'' then
        (let new_phone = strip new_in in
         if \<not> is_valid_phone new_phone then Msg InvalidPhone
         else if dict_contains new_phone contacts \<and> new_phone \<noteq> phone_sel then Msg DuplicatePhone
         else case map_of contacts phone_sel of
                None \<Rightarrow> Raised KeyError
              | Some v \<Rightarrow>
                  Saved (dict_set new_phone v (dict_pop phone_sel contacts)) ContactUpdated)
      else if fld = ''2'' then
        (let new_name = strip new_in in
         if new_name = [] then Msg EmptyName
         else case title new_name of
                None \<Rightarrow> Unrepresented
              | Some titled \<Rightarrow> set_field contacts phone_sel ''name'' (JStr titled))
      else
        (let new_email = strip new_in in
         if new_email \<noteq> [] \<and> \<not> is_valid_email new_email then Msg InvalidEmail
         else set_field contacts phone_sel ''email'' (JStr new_email)))"

definition update_contact ::
  "dict \<Rightarrow> string \<Rightarrow> string \<Rightarrow> string \<Rightarrow> string \<Rightarrow> string \<Rightarrow> op_result" where
  "update_contact contacts ch_in q_in sel_in fld_in new_in =
     (if contacts = [] then Msg NoContacts
      else case select_contact contacts ch_in q_in sel_in of
             Inl r \<Rightarrow> r
           | Inr phone_sel \<Rightarrow>
               (case menu_choice fld_in of
                  Inl r \<Rightarrow> r
                | Inr fld \<Rightarrow> update_field contacts phone_sel fld new_in))"

definition clear_all_contacts :: "dict \<Rightarrow> string \<Rightarrow> op_result" where
  "clear_all_contacts contacts confirm_in =
     (if contacts = [] then Msg NoContacts
      else if lower (strip confirm_in) \<noteq> ''confirm'' then Msg Cancelled
      else Saved [] AllRemoved)"

section \<open>Stores\<close>

text \<open>
  In a store in the sense of the data model every contact is a dict whose \<^verbatim>\<open>name\<close> is
  a string. For listing it is enough that the name, when there is one, is a string.
\<close>

definition has_text_name :: "json \<Rightarrow> bool" where
  "has_text_name v =
     (case v of
        JObj d \<Rightarrow> (case map_of d ''name'' of None \<Rightarrow> True | Some (JStr n) \<Rightarrow> True | Some _ \<Rightarrow> False)
      | _ \<Rightarrow> False)"

text \<open>The sort key of a contact, and the empty string where the key raises.\<close>

definition name_key :: "string \<times> json \<Rightarrow> string" where
  "name_key kv = (case name_lower (snd kv) of Inl e \<Rightarrow> [] | Inr k \<Rightarrow> k)"

section \<open>Writing the file and reading it back\<close>

text \<open>
  \<^verbatim>\<open>json.dump(data, tmp, ensure_ascii=False, indent=4)\<close> writes a str as a quoted
  string: a double quote and a backslash get a backslash, the control characters
  U+0008, U+0009, U+000A, U+000C and U+000D are \<^verbatim>\<open>\b\<close>, \<^verbatim>\<open>\t\<close>, \<^verbatim>\<open>\n\<close>, \<^verbatim>\<open>\f\<close> and
  \<^verbatim>\<open>\r\<close>, the other characters below U+0020 are \<^verbatim>\<open>\u00\<close> and two lower-case hex
  digits, and every other character is written as it is.
\<close>

definition dquote :: char where
  "dquote = CHR 0x22"

definition backslash :: char where
  "backslash = CHR 0x5C"

definition hex_digit :: "nat \<Rightarrow> char" where
  "hex_digit k = ''0123456789abcdef'' ! k"

definition escape_char :: "char \<Rightarrow> string" where
  "escape_char c =
     (let n = code_point c in
      if c = dquote then [backslash, dquote]
      else if c = backslash then [backslash, backslash]
      else if n = 0x0A then [backslash, CHR ''n'']
      else if n = 0x0D then [backslash, CHR ''r'']
      else if n = 0x09 then [backslash, CHR ''t'']
      else if n = 0x08 then [backslash, CHR ''b'']
      else if n = 0x0C then [backslash, CHR ''f'']
      else if n < 0x20 then
        [backslash, CHR ''u'', CHR ''0'', CHR ''0'', hex_digit (n div 16), hex_digit (n mod 16)]
      else [c])"

definition encode_str :: "string \<Rightarrow> string" where
  "encode_str s = dquote # concat (map escape_char s) @ [dquote]"

text \<open>
  With \<^verbatim>\<open>indent=4\<close> an empty dict is \<^verbatim>\<open>{}\<close>; any other dict is an opening brace, its
  items each on a line of its own, indented by four spaces for every level, with a
  colon and a space after the key and a comma after every item but the last, and the
  closing brace on a line of its own. The model gives the text of strings and of dicts,
  the values a store is made of; for the other values the result is \<open>None\<close> and the
  model says nothing.
\<close>

definition indent_text :: "nat \<Rightarrow> string" where
  "indent_text level = newline # replicate (4 * level) CHR '' ''"

fun json_dump :: "nat \<Rightarrow> json \<Rightarrow> string option"
  and items_dump :: "nat \<Rightarrow> (string \<times> json) list \<Rightarrow> string option" where
  "json_dump level (JStr s) = Some (encode_str s)"
| "json_dump level (JObj []) = Some ''{}''"
| "json_dump level (JObj (kv # kvs)) =
     (case items_dump (Suc level) (kv # kvs) of
        None \<Rightarrow> None
      | Some items \<Rightarrow> Some (''{'' @ indent_text (Suc level) @ items @ indent_text level @ ''}''))"
| "json_dump level JNull = None"
| "json_dump level (JBool b) = None"
| "json_dump level (JInt i) = None"
| "json_dump level (JFloat f) = None"
| "json_dump level (JArr xs) = None"
| "items_dump level [] = Some []"
| "items_dump level ((k, v) # kvs) =
     (case json_dump level v of
        None \<Rightarrow> None
      | Some text \<Rightarrow>
          (case items_dump level kvs of
             None \<Rightarrow> None
           | Some rest \<Rightarrow>
               Some (encode_str k @ '': '' @ text @
                     (if kvs = [] then [] else '','' @ indent_text level) @ rest)))"

text \<open>
  \<^verbatim>\<open>json.load\<close>, as far as the model follows it: strings and objects, with the
  whitespace JSON allows between the tokens. \<open>scan_string\<close> reads a string after its
  opening quote: up to the closing quote, with the escapes \<^verbatim>\<open>\"\<close>, \<^verbatim>\<open>\\\<close>, \<^verbatim>\<open>\/\<close>,
  \<^verbatim>\<open>\b\<close>, \<^verbatim>\<open>\f\<close>, \<^verbatim>\<open>\n\<close>, \<^verbatim>\<open>\r\<close>, \<^verbatim>\<open>\t\<close> and \<^verbatim>\<open>\u\<close> with four hex digits, and no raw
  character below U+0020. An object becomes a dict as \<^verbatim>\<open>dict(pairs)\<close> builds it: a key
  that comes again keeps its place and takes the later value. \<open>None\<close> is a text on which
  the model says nothing: text that \<^verbatim>\<open>json.load\<close> rejects, that holds other values
  than strings and objects, or that holds a \<^verbatim>\<open>\u\<close> escape above U+00FF. The first
  argument of \<open>parse_value\<close> and \<open>parse_members\<close> bounds the number of calls; the length
  of the text is enough.
\<close>

definition is_json_space :: "char \<Rightarrow> bool" where
  "is_json_space c = (c = CHR '' '' \<or> c = CHR 0x09 \<or> c = CHR 0x0A \<or> c = CHR 0x0D)"

definition skip_space :: "string \<Rightarrow> string" where
  "skip_space s = dropWhile is_json_space s"

definition hex_value :: "char \<Rightarrow> nat option" where
  "hex_value c =
     (let n = code_point c in
      if 0x30 \<le> n \<and> n \<le> 0x39 then Some (n - 0x30)
      else if 0x61 \<le> n \<and> n \<le> 0x66 then Some (n - 0x61 + 10)
      else if 0x41 \<le> n \<and> n \<le> 0x46 then Some (n - 0x41 + 10)
      else None)"

definition hex4 :: "char \<Rightarrow> char \<Rightarrow> char \<Rightarrow> char \<Rightarrow> nat option" where
  "hex4 a b c d =
     (case (hex_value a, hex_value b, hex_value c, hex_value d) of
        (Some w, Some x, Some y, Some z) \<Rightarrow> Some (((w * 16 + x) * 16 + y) * 16 + z)
      | _ \<Rightarrow> None)"

definition unescape :: "char \<Rightarrow> char option" where
  "unescape e =
     (if e = dquote then Some dquote
      else if e = backslash then Some backslash
      else if e = CHR ''/'' then Some CHR ''/''
      else if e = CHR ''b'' then Some (CHR 0x08)
      else if e = CHR ''f'' then Some (CHR 0x0C)
      else if e = CHR ''n'' then Some (CHR 0x0A)
      else if e = CHR ''r'' then Some (CHR 0x0D)
      else if e = CHR ''t'' then Some (CHR 0x09)
      else None)"

fun scan_string :: "string \<Rightarrow> (string \<times> string) option" where
  "scan_string [] = None"
| "scan_string (c # cs) =
     (if c = dquote then Some ([], cs)
      else if c = backslash then
        (case cs of
           [] \<Rightarrow> None
         | e # rest \<Rightarrow>
             if e = CHR ''u'' then
               (case rest of
                  h1 # h2 # h3 # h4 # rest' \<Rightarrow>
                    (case hex4 h1 h2 h3 h4 of
                       None \<Rightarrow> None
                     | Some n \<Rightarrow>
                         if n < 256
                         then map_option (\<lambda>(s, r). (char_of n # s, r)) (scan_string rest')
                         else None)
                | _ \<Rightarrow> None)
             else
               (case unescape e of
                  None \<Rightarrow> None
                | Some ch \<Rightarrow> map_option (\<lambda>(s, r). (ch # s, r)) (scan_string rest)))
      else if code_point c < 0x20 then None
      else map_option (\<lambda>(s, r). (c # s, r)) (scan_string cs))"

fun parse_value :: "nat \<Rightarrow> string \<Rightarrow> (json \<times> string) option"
  and parse_members :: "nat \<Rightarrow> dict \<Rightarrow> string \<Rightarrow> (json \<times> string) option" where
  "parse_value 0 s = None"
| "parse_value (Suc n) [] = None"
| "parse_value (Suc n) (c # s) =
     (if c = dquote then map_option (\<lambda>(t, r). (JStr t, r)) (scan_string s)
      else if c = CHR ''{'' then
        (case skip_space s of
           [] \<Rightarrow> None
         | d # r \<Rightarrow>
             if d = CHR ''}'' then Some (JObj [], r)
             else if d = dquote then parse_members n [] r
             else None)
      else None)"
| "parse_members 0 pairs s = None"
| "parse_members (Suc n) pairs s =
     (case scan_string s of
        None \<Rightarrow> None
      | Some (key, r1) \<Rightarrow>
          (case skip_space r1 of
             [] \<Rightarrow> None
           | colon # r2 \<Rightarrow>
               if colon \<noteq> CHR '':'' then None
               else
                 (case parse_value n (skip_space r2) of
                    None \<Rightarrow> None
                  | Some (v, r3) \<Rightarrow>
                      (case skip_space r3 of
                         [] \<Rightarrow> None
                       | d # r4 \<Rightarrow>
                           if d = CHR ''}'' then Some (JObj (dict_set key v pairs), r4)
                           else if d = CHR '','' then
                             (case skip_space r4 of
                                [] \<Rightarrow> None
                              | q # r5 \<Rightarrow>
                                  if q = dquote then parse_members n (dict_set key v pairs) r5
                                  else None)
                           else None))))"

definition json_loads :: "string \<Rightarrow> json option" where
  "json_loads text =
     (case parse_value (Suc (length text)) (skip_space text) of
        None \<Rightarrow> None
      | Some (v, rest) \<Rightarrow> if skip_space rest = [] then Some v else None)"


text \<open>
  \<^verbatim>\<open>safe_save_contacts\<close> writes the text of the store to a temporary file and renames it
  over the target. The first argument is the exception that the file system raises in
  \<^verbatim>\<open>mkstemp\<close>, in the write or in \<^verbatim>\<open>replace\<close>, if any; the function catches it, reports
  it and leaves the target as it was. When nothing is raised the target holds the text
  \<^verbatim>\<open>json.dump\<close> wrote, and what a later load observes of it is what \<^verbatim>\<open>json.load\<close> makes
  of that text. The result is \<open>None\<close> where the model says nothing about the text or
  about its reading.
\<close>

definition file_with_text :: "string \<Rightarrow> disk_file option" where
  "file_with_text text = map_option (\<lambda>v. Present (Inr v)) (json_loads text)"

definition safe_save_contacts :: "py_error option \<Rightarrow> dict \<Rightarrow> disk_file \<Rightarrow> disk_file option" where
  "safe_save_contacts raised data file =
     (case raised of
        Some e \<Rightarrow> Some file
      | None \<Rightarrow>
          (case json_dump 0 (JObj data) of
             None \<Rightarrow> None
           | Some text \<Rightarrow> file_with_text text))"




section \<open>Sample data\<close>

definition ann :: json where
  "ann = JObj [(''name'', JStr ''Ann Lee''), (''email'', JStr ''ann@example.com'')]"

definition sample_store :: dict where
  "sample_store = [(''5551234567'', ann)]"

definition bob_alice_store :: dict where
  "bob_alice_store =
     [(''1111111111'', JObj [(''name'', JStr ''Bob'')]),
      (''2222222222'', JObj [(''name'', JStr ''alice'')])]"

section \<open>Validation of phone numbers\<close>

lemma in_class_digit: "in_class [Digit] c = is_decimal c"
  by (simp add: in_class_def)

lemma match_times:
  "match_here (Times cls n # r) at_start s =
     (n \<le> length s \<and> list_all (in_class cls) (take n s) \<and>
      match_here r (at_start \<and> n = 0) (drop n s))"
proof (induction n arbitrary: at_start s)
  case 0
  then show ?case by simp
next
  case (Suc n)
  show ?case
  proof (cases s)
    case Nil
    then show ?thesis by simp
  next
    case (Cons c cs)
    then show ?thesis by (auto simp add: Suc.IH)
  qed
qed

text \<open>What \<open>is_valid_phone\<close> accepts: ten decimal digits, and also ten decimal digits
  followed by one newline, because of \<^verbatim>\<open>$\<close>.\<close>

lemma is_valid_phone_iff:
  "is_valid_phone p \<longleftrightarrow>
     (length p = 10 \<and> list_all is_decimal p) \<or>
     (length p = 11 \<and> list_all is_decimal (take 10 p) \<and> drop 10 p = [newline])"
proof -
  have cls: "in_class [Digit] = is_decimal"
    by (rule ext) (simp add: in_class_digit)
  have "is_valid_phone p \<longleftrightarrow>
          10 \<le> length p \<and> list_all is_decimal (take 10 p) \<and>
          (drop 10 p = [] \<or> drop 10 p = [newline])"
    by (simp add: is_valid_phone_def re_match_def PHONE_RE_def match_times cls)
  also have "\<dots> \<longleftrightarrow>
     (length p = 10 \<and> list_all is_decimal p) \<or>
     (length p = 11 \<and> list_all is_decimal (take 10 p) \<and> drop 10 p = [newline])"
  proof -
    have a: "length p = 11" if "drop 10 p = [newline]"
    proof -
      from that have "length (drop 10 p) = 1" by simp
      then show ?thesis by simp
    qed
    show ?thesis using a by auto
  qed
  finally show ?thesis .
qed

text \<open>
  Claim C2: for every string \<open>p\<close>, \<open>is_valid_phone p\<close> holds exactly when \<open>p\<close> has length
  10 and every character is a decimal digit. The code accepts one more kind of string:
  ten digits followed by a newline, eleven characters long.
\<close>

theorem phone_with_final_newline_accepted:
  "is_valid_phone (''1234567890'' @ [newline]) \<and> length (''1234567890'' @ [newline]) = 11"
  by code_simp

section \<open>Loading\<close>


text \<open>
  Claim C3: load returns a store for every state of the file and never raises. A file
  whose bytes are not UTF-8 makes \<^verbatim>\<open>json.load\<close> raise UnicodeDecodeError, which is
  neither of the two exceptions the function catches, so the exception reaches the
  caller.
\<close>

theorem undecodable_file_escapes_load:
  "safe_load_contacts (Present (Inl UnicodeDecodeError)) = Inl UnicodeDecodeError"
  by (simp add: safe_load_contacts_def)

section \<open>The empty store\<close>

text \<open>
  Claim C10: when the loaded store is empty, search, delete and update end with the
  no-contacts warning whatever is typed, so no query is validated and no validation
  error is produced.
\<close>

theorem empty_store_ends_first:
  "search_contact [] choice_in q_in = Msg NoContacts \<and>
   delete_contact [] choice_in q_in answer_in = Msg NoContacts \<and>
   update_contact [] choice_in q_in sel_in fld_in new_in = Msg NoContacts"
  by (simp add: search_contact_def delete_contact_def update_contact_def)

theorem empty_store_ends_first_witness:
  "search_contact [] ''1'' ''12ab'' = Msg NoContacts \<and>
   delete_contact [] ''2'' ''  '' ''yes'' = Msg NoContacts \<and>
   update_contact [] ''3'' ''not-an-email'' ''1'' ''1'' ''x'' = Msg NoContacts"
  using empty_store_ends_first [of "''1''" "''12ab''"]
    empty_store_ends_first [of "''2''" "''  ''" "''yes''"]
    empty_store_ends_first [of "''3''" "''not-an-email''" _ "''1''" "''1''" "''x''"]
  by simp

section \<open>Search by email\<close>

text \<open>The email branch of search, delete and update lets the empty query through and
  nothing else: the test is \<^verbatim>\<open>not is_valid_email(q) or not q == ""\<close>.\<close>

lemma email_query_must_be_empty:
  "lower (strip q_in) \<noteq> [] \<Longrightarrow> find_matches contacts ''3'' q_in = Inl (Msg InvalidEmail)"
  by (simp add: find_matches_def Let_def)

text \<open>
  Claim C1: a non-empty query that is a well-formed email is searched for, in search,
  delete and update alike; only a query that is neither empty nor well-formed is
  rejected. In the code the well-formed query \<^verbatim>\<open>ann@example.com\<close>, the email of the one
  contact of the store, is rejected as an invalid email by all three operations.
\<close>

theorem wellformed_email_query_rejected:
  "is_valid_email ''ann@example.com'' \<and>
   search_contact sample_store ''3'' ''ann@example.com'' = Msg InvalidEmail \<and>
   delete_contact sample_store ''3'' ''ann@example.com'' ''yes'' = Msg InvalidEmail \<and>
   update_contact sample_store ''3'' ''ann@example.com'' ''1'' ''3'' [] = Msg InvalidEmail"
  by code_simp

section \<open>Adding a contact\<close>

lemma strip_idem: "strip (strip s) = strip s"
proof -
  define t where "t = dropWhile is_space s"
  define u where "u = dropWhile is_space (rev t)"
  have s: "strip s = rev u" by (simp add: strip_def t_def u_def)
  have t: "t = [] \<or> \<not> is_space (hd t)"
    unfolding t_def by (metis hd_dropWhile)
  have "rev t = takeWhile is_space (rev t) @ u"
    unfolding u_def by simp
  then have "u \<noteq> [] \<Longrightarrow> last u = hd t"
    by (metis hd_rev last_appendR rev_rev_ident)
  moreover have "u \<noteq> [] \<Longrightarrow> t \<noteq> []"
    unfolding u_def by auto
  ultimately have "rev u = [] \<or> \<not> is_space (hd (rev u))"
    using t by (metis hd_rev rev_is_Nil_conv)
  then have a: "dropWhile is_space (rev u) = rev u"
    by (simp add: dropWhile_eq_self_iff)
  have b: "dropWhile is_space u = u"
    unfolding u_def by (rule dropWhile_idem)
  show ?thesis
    unfolding s by (simp add: strip_def a b)
qed

lemma valid_phone_not_empty: "is_valid_phone p \<Longrightarrow> p \<noteq> []"
  by (auto simp add: is_valid_phone_iff)

lemma dict_set_new: "\<not> dict_contains k d \<Longrightarrow> dict_set k v d = d @ [(k, v)]"
  by (induction d) (auto simp add: dict_contains_def dict_keys_def)

text \<open>What \<open>strip\<close> removes is whitespace at the two ends, and it removes all of it.\<close>

lemma strip_decompose:
  "\<exists>a b. s = a @ strip s @ b \<and> list_all is_space a \<and> list_all is_space b"
proof -
  define t where "t = dropWhile is_space s"
  have s: "s = takeWhile is_space s @ t"
    by (simp add: t_def)
  have "rev (takeWhile is_space (rev t) @ dropWhile is_space (rev t)) = t"
    by (simp only: takeWhile_dropWhile_id rev_rev_ident)
  then have "rev (dropWhile is_space (rev t)) @ rev (takeWhile is_space (rev t)) = t"
    by (simp only: rev_append)
  then have t: "t = strip s @ rev (takeWhile is_space (rev t))"
    by (simp add: strip_def t_def)
  have a: "list_all is_space (takeWhile is_space s)"
    by (simp add: list_all_iff) (meson set_takeWhileD)
  have b: "list_all is_space (rev (takeWhile is_space (rev t)))"
    by (simp add: list_all_iff) (meson set_takeWhileD)
  from s t have "s = takeWhile is_space s @ strip s @ rev (takeWhile is_space (rev t))"
    by simp
  with a b show ?thesis by blast
qed

lemma strip_first: "strip s \<noteq> [] \<Longrightarrow> \<not> is_space (hd (strip s))"
proof -
  assume a: "strip s \<noteq> []"
  define t where "t = dropWhile is_space s"
  define u where "u = dropWhile is_space (rev t)"
  have s: "strip s = rev u" by (simp add: strip_def t_def u_def)
  with a have u: "u \<noteq> []" by simp
  then have t: "t \<noteq> []" unfolding u_def by auto
  then have "\<not> is_space (hd t)"
    unfolding t_def by (metis hd_dropWhile)
  moreover have "rev t = takeWhile is_space (rev t) @ u"
    unfolding u_def by simp
  then have "last u = hd t"
    using u by (metis hd_rev last_appendR rev_rev_ident)
  ultimately show ?thesis
    using u by (simp add: s hd_rev)
qed

text \<open>Every text without U+00B5 and U+00FF has its title-cased form in the model.\<close>

lemma title_from_in_range:
  "list_all (\<lambda>c. code_point c \<noteq> 0xB5 \<and> code_point c \<noteq> 0xFF) s \<Longrightarrow>
     \<exists>t. title_from previous_is_cased s = Some t"
proof (induction s arbitrary: previous_is_cased)
  case Nil
  then show ?case by simp
next
  case (Cons c s)
  then have c: "\<exists>m. title_char c = Some m"
    by (simp add: title_char_def Let_def)
  from Cons obtain rest where "title_from (is_cased c) s = Some rest"
    by fastforce
  with c show ?case by auto
qed

lemma title_in_range:
  "list_all (\<lambda>c. code_point c \<noteq> 0xB5 \<and> code_point c \<noteq> 0xFF) s \<Longrightarrow> \<exists>t. title s = Some t"
  unfolding title_def by (rule title_from_in_range)

lemma add_contact_saved:
  assumes "strip name_in \<noteq> []" and "is_valid_phone (strip phone_in)"
    and "\<not> dict_contains (strip phone_in) S" and "is_valid_email (strip email_in)"
    and "title (strip name_in) = Some titled"
  shows "add_contact S name_in phone_in email_in =
           Saved (S @ [(strip phone_in,
                        JObj [(''name'', JStr titled), (''email'', JStr (strip email_in))])])
             ContactAdded"
  using assms valid_phone_not_empty [of "strip phone_in"]
  by (simp add: add_contact_def Let_def strip_idem dict_set_new)

lemma add_contact_saved_only:
  assumes "add_contact S name_in phone_in email_in = Saved S' m"
  shows "strip name_in \<noteq> [] \<and> is_valid_phone (strip phone_in) \<and>
         \<not> dict_contains (strip phone_in) S \<and> is_valid_email (strip email_in) \<and>
         (\<exists>titled. title (strip name_in) = Some titled)"
  using assms
  by (auto simp add: add_contact_def Let_def is_valid_email_def strip_idem
      split: if_splits option.splits)

lemma add_blank_name:
  "strip name_in = [] \<Longrightarrow> add_contact S name_in phone_in email_in = Msg EmptyName"
  by (simp add: add_contact_def)


lemma menu_choice_digit:
  "menu_choice ''1'' = Inr ''1''" "menu_choice ''2'' = Inr ''2''" "menu_choice ''3'' = Inr ''3''"
  by code_simp+




text \<open>
  Claim C6: for every store \<open>S\<close> and every phone that is a key of \<open>S\<close>, add with that
  phone fails with DuplicatePhone and saves nothing. A phone is typed only after a name
  that is not blank has been typed, and a key of a store is a valid phone.
\<close>

theorem add_existing_phone_fails:
  assumes "strip name_in \<noteq> []" and "is_valid_phone (strip phone_in)"
    and "dict_contains (strip phone_in) S"
  shows "add_contact S name_in phone_in email_in = Msg DuplicatePhone"
  using assms valid_phone_not_empty [of "strip phone_in"]
  by (simp add: add_contact_def Let_def)

theorem add_existing_phone_fails_witness:
  "strip ''Bo'' \<noteq> [] \<and> is_valid_phone (strip ''5551234567'') \<and>
   dict_contains (strip ''5551234567'') sample_store \<and>
   add_contact sample_store ''Bo'' ''5551234567'' ''bo@example.com'' = Msg DuplicatePhone"
proof -
  have h1: "strip ''Bo'' \<noteq> []" by code_simp
  have h2: "is_valid_phone (strip ''5551234567'')" by code_simp
  have h3: "dict_contains (strip ''5551234567'') sample_store" by code_simp
  from add_existing_phone_fails [OF h1 h2 h3] h1 h2 h3 show ?thesis by blast
qed

text \<open>
  Claim C9: a successful add stores the title-cased trimmed name and the email as it
  is, under the phone, as a new last entry. On the empty store, adding \<^verbatim>\<open>john doe\<close>,
  \<^verbatim>\<open>5551234567\<close> and no email gives the single entry \<^verbatim>\<open>5551234567\<close> with name
  \<^verbatim>\<open>John Doe\<close> and an empty email; the lines \<^verbatim>\<open>  mary-jane DOE \<close>, \<^verbatim>\<open> 5551234567 \<close> and
  \<^verbatim>\<open> MJ@Example.com \<close> give the name \<^verbatim>\<open>Mary-Jane Doe\<close> and the email
  \<^verbatim>\<open>MJ@Example.com\<close> under \<^verbatim>\<open>5551234567\<close>.
\<close>

theorem add_stores_title_cased_name:
  "(add_contact S name_in phone_in email_in = Saved S' m \<longrightarrow>
      m = ContactAdded \<and>
      (\<exists>titled. title (strip name_in) = Some titled \<and>
         S' = S @ [(strip phone_in,
                    JObj [(''name'', JStr titled), (''email'', JStr (strip email_in))])])) \<and>
   add_contact [] ''john doe'' ''5551234567'' [] =
     Saved [(''5551234567'', JObj [(''name'', JStr ''John Doe''), (''email'', JStr [])])]
       ContactAdded \<and>
   add_contact [] ''  mary-jane DOE '' '' 5551234567 '' '' MJ@Example.com '' =
     Saved [(''5551234567'',
             JObj [(''name'', JStr ''Mary-Jane Doe''), (''email'', JStr ''MJ@Example.com'')])]
       ContactAdded"
proof (intro conjI impI)
  assume a: "add_contact S name_in phone_in email_in = Saved S' m"
  from add_contact_saved_only [OF a] obtain titled where
    t: "title (strip name_in) = Some titled" and
    h: "strip name_in \<noteq> []" "is_valid_phone (strip phone_in)"
       "\<not> dict_contains (strip phone_in) S" "is_valid_email (strip email_in)"
    by blast
  from add_contact_saved [OF h t] a
  have "m = ContactAdded" and
    "S' = S @ [(strip phone_in,
                JObj [(''name'', JStr titled), (''email'', JStr (strip email_in))])]"
    by simp_all
  with t show "m = ContactAdded"
    and "\<exists>titled. title (strip name_in) = Some titled \<and>
           S' = S @ [(strip phone_in,
                      JObj [(''name'', JStr titled), (''email'', JStr (strip email_in))])]"
    by simp_all
next
  show "add_contact [] ''john doe'' ''5551234567'' [] =
     Saved [(''5551234567'', JObj [(''name'', JStr ''John Doe''), (''email'', JStr [])])]
       ContactAdded"
    by code_simp
next
  show "add_contact [] ''  mary-jane DOE '' '' 5551234567 '' '' MJ@Example.com '' =
     Saved [(''5551234567'',
             JObj [(''name'', JStr ''Mary-Jane Doe''), (''email'', JStr ''MJ@Example.com'')])]
       ContactAdded"
    by code_simp
qed

theorem add_stores_title_cased_name_witness:
  "add_contact [] ''  mary-jane DOE '' '' 5551234567 '' '' MJ@Example.com '' =
     Saved [(''5551234567'',
             JObj [(''name'', JStr ''Mary-Jane Doe''), (''email'', JStr ''MJ@Example.com'')])]
       ContactAdded \<and>
   title (strip ''  mary-jane DOE '') = Some ''Mary-Jane Doe'' \<and>
   strip '' 5551234567 '' = ''5551234567'' \<and>
   strip '' MJ@Example.com '' = ''MJ@Example.com''"
proof -
  note t = add_stores_title_cased_name
    [of "[]" "''  mary-jane DOE ''" "'' 5551234567 ''" "'' MJ@Example.com ''"
        "[(''5551234567'',
           JObj [(''name'', JStr ''Mary-Jane Doe''), (''email'', JStr ''MJ@Example.com'')])]"
        ContactAdded]
  from t have a: "add_contact [] ''  mary-jane DOE '' '' 5551234567 '' '' MJ@Example.com '' =
     Saved [(''5551234567'',
             JObj [(''name'', JStr ''Mary-Jane Doe''), (''email'', JStr ''MJ@Example.com'')])]
       ContactAdded"
    by blast
  with t obtain titled where
    "title (strip ''  mary-jane DOE '') = Some titled" and
    "[(''5551234567'',
       JObj [(''name'', JStr ''Mary-Jane Doe''), (''email'', JStr ''MJ@Example.com'')])] =
     [] @ [(strip '' 5551234567 '',
            JObj [(''name'', JStr titled), (''email'', JStr (strip '' MJ@Example.com ''))])]"
    by blast
  then have "title (strip ''  mary-jane DOE '') = Some ''Mary-Jane Doe''"
    and "strip '' 5551234567 '' = ''5551234567''"
    and "strip '' MJ@Example.com '' = ''MJ@Example.com''"
    by simp_all
  with a show ?thesis by blast
qed

section \<open>Updating the phone of a contact\<close>

lemma select_items_subset: "select_items cond d = Inr r \<Longrightarrow> set r \<subseteq> set d"
proof (induction d arbitrary: r)
  case Nil
  then show ?case by simp
next
  case (Cons kv d)
  obtain p v where kv: "kv = (p, v)" by (cases kv)
  from Cons.prems obtain b rest where
    rest: "select_items cond d = Inr rest" and r: "r = (if b then (p, v) # rest else rest)"
    unfolding kv by (auto split: sum.splits)
  from Cons.IH [OF rest] show ?case
    unfolding kv r by auto
qed

lemma map_sum_Raised_Inr: "map_sum Raised id x = Inr items \<longleftrightarrow> x = Inr items"
  by (cases x) simp_all

lemma find_matches_subset:
  assumes "find_matches contacts choice q_in = Inr items"
  shows "set items \<subseteq> set contacts"
proof -
  from assms obtain cond where "select_items cond contacts = Inr items"
    unfolding find_matches_def Let_def
    by (auto simp add: map_sum_Raised_Inr split: if_splits)
  then show ?thesis by (rule select_items_subset)
qed

lemma pick_numbered_key:
  assumes "pick_numbered items line = Inr p"
  shows "p \<in> fst ` set items"
proof -
  from assms obtain sel where sel: "1 \<le> sel" "sel \<le> int (length items)"
    and p: "p = fst (items ! nat (sel - 1))"
    unfolding pick_numbered_def by (auto split: option.splits if_splits)
  from sel have "nat (sel - 1) < length items" by linarith
  then show ?thesis unfolding p by (simp add: image_iff) (metis nth_mem)
qed

lemma select_contact_key:
  assumes "select_contact contacts ch_in q_in sel_in = Inr p"
  shows "dict_contains p contacts"
proof -
  from assms obtain ch items where m: "find_matches contacts ch q_in = Inr items"
    and c: "(items \<noteq> [] \<and> p = fst (items ! 0)) \<or> pick_numbered items sel_in = Inr p"
    unfolding select_contact_def by (auto split: sum.splits if_splits)
  from c have "p \<in> fst ` set items"
  proof
    assume "items \<noteq> [] \<and> p = fst (items ! 0)"
    then show ?thesis by (cases items) auto
  next
    assume "pick_numbered items sel_in = Inr p"
    then show ?thesis by (rule pick_numbered_key)
  qed
  with find_matches_subset [OF m] show ?thesis
    by (auto simp add: dict_contains_def dict_keys_def)
qed

lemma dict_pop_absent: "\<not> dict_contains k (dict_pop k d)"
  by (auto simp add: dict_contains_def dict_keys_def dict_pop_def)

lemma dict_pop_other: "k \<noteq> p \<Longrightarrow> dict_contains k (dict_pop p d) = dict_contains k d"
  by (force simp add: dict_contains_def dict_keys_def dict_pop_def)

lemma map_of_dict_pop: "map_of (dict_pop p d) = (map_of d)(p := None)"
  by (induction d) (auto simp add: dict_pop_def)

lemma map_of_rekeyed:
  "map_of (dict_pop p d @ [(n, v)]) k =
     (if k = n then (if n = p \<or> map_of d n = None then Some v else map_of d n)
      else if k = p then None else map_of d k)"
  by (simp add: map_add_def map_of_dict_pop split: option.splits)

lemma dict_contains_map_of: "dict_contains k d \<longleftrightarrow> map_of d k \<noteq> None"
  by (simp add: dict_contains_def dict_keys_def map_of_eq_None_iff)

lemma update_phone_saved:
  assumes "map_of S p = Some v" and "is_valid_phone n"
    and "strip new_in = n" and "n = p \<or> \<not> dict_contains n S"
  shows "update_field S p ''1'' new_in = Saved (dict_pop p S @ [(n, v)]) ContactUpdated"
proof -
  have "\<not> dict_contains n (dict_pop p S)"
    using assms(4) dict_pop_absent [of p S] dict_pop_other [of n p S] by blast
  then have "dict_set n v (dict_pop p S) = dict_pop p S @ [(n, v)]"
    by (rule dict_set_new)
  with assms show ?thesis
    by (auto simp add: update_field_def Let_def)
qed

lemma update_contact_selected:
  assumes "select_contact S ch_in q_in sel_in = Inr p"
  shows "update_contact S ch_in q_in sel_in ''1'' new_in = update_field S p ''1'' new_in"
proof -
  from select_contact_key [OF assms] have "S \<noteq> []"
    by (auto simp add: dict_contains_def dict_keys_def)
  with assms show ?thesis
    by (simp add: update_contact_def menu_choice_digit)
qed

text \<open>
  Claim C7: for a store \<open>S\<close> and the selected contact with key \<open>p\<close>, updating the phone
  field to a valid phone \<open>n\<close> fails with DuplicatePhone, saving nothing, when \<open>n\<close> is
  another key of \<open>S\<close>; it succeeds and leaves the mapping as it was when \<open>n\<close> is \<open>p\<close>
  itself; and otherwise it removes the key \<open>p\<close> and stores the same contact under \<open>n\<close>.
\<close>

theorem update_phone_field:
  assumes "select_contact S ch_in q_in sel_in = Inr p" and "is_valid_phone (strip new_in)"
  shows
    "(dict_contains (strip new_in) S \<and> strip new_in \<noteq> p \<longrightarrow>
        update_contact S ch_in q_in sel_in ''1'' new_in = Msg DuplicatePhone) \<and>
     (strip new_in = p \<longrightarrow>
        (\<exists>S'. update_contact S ch_in q_in sel_in ''1'' new_in = Saved S' ContactUpdated \<and>
              map_of S' = map_of S)) \<and>
     (\<not> dict_contains (strip new_in) S \<longrightarrow>
        (\<exists>v. map_of S p = Some v \<and>
             update_contact S ch_in q_in sel_in ''1'' new_in =
               Saved (dict_pop p S @ [(strip new_in, v)]) ContactUpdated \<and>
             \<not> dict_contains p (dict_pop p S @ [(strip new_in, v)]) \<and>
             map_of (dict_pop p S @ [(strip new_in, v)]) =
               (map_of S)(p := None, strip new_in \<mapsto> v)))"
proof -
  define n where "n = strip new_in"
  have u: "update_contact S ch_in q_in sel_in ''1'' new_in = update_field S p ''1'' new_in"
    using assms(1) by (rule update_contact_selected)
  have key: "dict_contains p S"
    using assms(1) by (rule select_contact_key)
  then obtain v where v: "map_of S p = Some v"
    by (auto simp add: dict_contains_map_of)
  have valid: "is_valid_phone n"
    using assms(2) by (simp add: n_def)
  have dup: "update_field S p ''1'' new_in = Msg DuplicatePhone"
    if "dict_contains n S" and "n \<noteq> p"
    using that valid by (simp add: update_field_def Let_def n_def)
  have same: "\<exists>S'. update_field S p ''1'' new_in = Saved S' ContactUpdated \<and> map_of S' = map_of S"
    if "n = p"
  proof -
    have "update_field S p ''1'' new_in = Saved (dict_pop p S @ [(n, v)]) ContactUpdated"
      using v valid that by (intro update_phone_saved) (simp_all add: n_def)
    moreover have "map_of (dict_pop p S @ [(n, v)]) = map_of S"
      using v that by (intro ext) (simp add: map_of_rekeyed del: map_of_append)
    ultimately show ?thesis by blast
  qed
  have fresh:
    "update_field S p ''1'' new_in = Saved (dict_pop p S @ [(n, v)]) ContactUpdated \<and>
     \<not> dict_contains p (dict_pop p S @ [(n, v)]) \<and>
     map_of (dict_pop p S @ [(n, v)]) = (map_of S)(p := None, n \<mapsto> v)"
    if "\<not> dict_contains n S"
  proof (intro conjI)
    show "update_field S p ''1'' new_in = Saved (dict_pop p S @ [(n, v)]) ContactUpdated"
      using v valid that by (intro update_phone_saved) (simp_all add: n_def)
    have "n \<noteq> p" using that key by auto
    then show "\<not> dict_contains p (dict_pop p S @ [(n, v)])"
      by (simp add: dict_contains_map_of map_of_rekeyed del: map_of_append)
    show "map_of (dict_pop p S @ [(n, v)]) = (map_of S)(p := None, n \<mapsto> v)"
      using that by (intro ext) (simp add: map_of_rekeyed dict_contains_map_of del: map_of_append)
  qed
  show ?thesis
    unfolding u using dup same fresh v unfolding n_def by blast
qed

theorem update_phone_field_witness:
  "select_contact bob_alice_store ''1'' ''1111111111'' [] = Inr ''1111111111'' \<and>
   is_valid_phone (strip ''2222222222'') \<and>
   is_valid_phone (strip ''1111111111'') \<and>
   is_valid_phone (strip ''3333333333'') \<and>
   update_contact bob_alice_store ''1'' ''1111111111'' [] ''1'' ''2222222222'' =
     Msg DuplicatePhone \<and>
   (\<exists>S'. update_contact bob_alice_store ''1'' ''1111111111'' [] ''1'' ''1111111111'' =
            Saved S' ContactUpdated \<and>
          map_of S' = map_of bob_alice_store) \<and>
   update_contact bob_alice_store ''1'' ''1111111111'' [] ''1'' ''3333333333'' =
     Saved [(''2222222222'', JObj [(''name'', JStr ''alice'')]),
            (''3333333333'', JObj [(''name'', JStr ''Bob'')])]
       ContactUpdated"
proof -
  have s: "select_contact bob_alice_store ''1'' ''1111111111'' [] = Inr ''1111111111''"
    by code_simp
  have v2: "is_valid_phone (strip ''2222222222'')" by code_simp
  have v1: "is_valid_phone (strip ''1111111111'')" by code_simp
  have v3: "is_valid_phone (strip ''3333333333'')" by code_simp
  have c2: "dict_contains (strip ''2222222222'') bob_alice_store \<and>
            strip ''2222222222'' \<noteq> ''1111111111''"
    by code_simp
  have c1: "strip ''1111111111'' = ''1111111111''" by code_simp
  have c3: "\<not> dict_contains (strip ''3333333333'') bob_alice_store" by code_simp
  have r3: "dict_pop ''1111111111'' bob_alice_store @ [(strip ''3333333333'', v)] =
            [(''2222222222'', JObj [(''name'', JStr ''alice'')]), (''3333333333'', v)]" for v
    by (simp add: bob_alice_store_def dict_pop_def c3 strip_def is_space_def code_point_def)
  have m: "map_of bob_alice_store ''1111111111'' = Some (JObj [(''name'', JStr ''Bob'')])"
    by (simp add: bob_alice_store_def)
  from update_phone_field [OF s v2] c2
  have a: "update_contact bob_alice_store ''1'' ''1111111111'' [] ''1'' ''2222222222'' =
             Msg DuplicatePhone"
    by blast
  from update_phone_field [OF s v1] c1
  have b: "\<exists>S'. update_contact bob_alice_store ''1'' ''1111111111'' [] ''1'' ''1111111111'' =
                  Saved S' ContactUpdated \<and>
                map_of S' = map_of bob_alice_store"
    by blast
  from update_phone_field [OF s v3] c3 m
  have c: "update_contact bob_alice_store ''1'' ''1111111111'' [] ''1'' ''3333333333'' =
     Saved [(''2222222222'', JObj [(''name'', JStr ''alice'')]),
            (''3333333333'', JObj [(''name'', JStr ''Bob'')])]
       ContactUpdated"
    by (auto simp add: r3)
  from s v1 v2 v3 a b c show ?thesis by blast
qed

section \<open>Listing\<close>

lemma name_lower_text: "has_text_name v \<Longrightarrow> name_lower v = Inr (name_key (p, v))"
  by (auto simp add: has_text_name_def name_lower_def name_key_def py_get_def py_lower_def
      split: json.splits option.splits)

lemma has_text_name_dict: "has_text_name v \<Longrightarrow> is_dict v"
  by (auto simp add: has_text_name_def is_dict_def split: json.splits)

lemma sort_keys_text:
  "list_all (\<lambda>(p, v). has_text_name v) S \<Longrightarrow> sort_keys S = Inr (map name_key S)"
proof (induction S)
  case Nil
  then show ?case by simp
next
  case (Cons kv S)
  obtain p v where kv: "kv = (p, v)" by (cases kv)
  from Cons.prems have "has_text_name v" and "list_all (\<lambda>(p, v). has_text_name v) S"
    by (simp_all add: kv)
  then show ?case
    by (simp add: kv Cons.IH name_lower_text [of v p])
qed

text \<open>Sorting the items decorated with their keys and dropping the keys again is
  sorting the items by the key function.\<close>

lemma decorate_insort:
  "map (\<lambda>x. (f x, x)) (insort_key f x ys) = insort_key fst (f x, x) (map (\<lambda>x. (f x, x)) ys)"
  by (induction ys) simp_all

lemma decorate_sort:
  "map (\<lambda>x. (f x, x)) (sort_key f xs) = sort_key fst (map (\<lambda>x. (f x, x)) xs)"
  by (induction xs) (simp_all add: decorate_insort)

lemma undecorate_sort: "map snd (sort_key fst (zip (map f xs) xs)) = sort_key f xs"
proof -
  have "zip (map f xs) xs = map (\<lambda>x. (f x, x)) xs"
    by (induction xs) simp_all
  then have "map snd (sort_key fst (zip (map f xs) xs)) =
             map snd (map (\<lambda>x. (f x, x)) (sort_key f xs))"
    by (simp add: decorate_sort)
  then show ?thesis by (simp add: comp_def)
qed

lemma list_contacts_text:
  assumes "list_all (\<lambda>(p, v). has_text_name v) S" and "S \<noteq> []"
  shows "list_contacts S = Shown (sort_key name_key S)"
proof -
  have "sorted_by_name S = Inr (sort_key name_key S)"
    using assms(1) by (simp add: sorted_by_name_def sort_keys_text undecorate_sort)
  moreover have "list_all (\<lambda>(phone, info). is_dict info) (sort_key name_key S)"
    using assms(1) by (auto simp add: list_all_iff dest: has_text_name_dict)
  ultimately show ?thesis
    using assms(2) by (simp add: list_contacts_def print_contact_blocks_def)
qed

text \<open>
  Claim C8: for every store, the listing shows all the (phone, contact) pairs of the
  store, in ascending order of the lower-cased name, pairs with equal lower-cased names
  in the order the store has them; the store with the names \<^verbatim>\<open>Bob\<close> and \<^verbatim>\<open>alice\<close> is
  listed with alice first. (For the empty store the listing is the no-contacts
  warning and no pair.)
\<close>

theorem list_contacts_sorted:
  assumes "list_all (\<lambda>(p, v). has_text_name v) S"
  shows
    "(S = [] \<longrightarrow> list_contacts S = Msg NoContacts) \<and>
     (S \<noteq> [] \<longrightarrow>
        (\<exists>L. list_contacts S = Shown L \<and>
             mset L = mset S \<and>
             sorted (map name_key L) \<and>
             (\<forall>k. filter (\<lambda>kv. name_key kv = k) L = filter (\<lambda>kv. name_key kv = k) S))) \<and>
     list_contacts bob_alice_store =
       Shown [(''2222222222'', JObj [(''name'', JStr ''alice'')]),
              (''1111111111'', JObj [(''name'', JStr ''Bob'')])]"
proof (intro conjI impI)
  assume "S = []"
  then show "list_contacts S = Msg NoContacts"
    by (simp add: list_contacts_def)
next
  assume "S \<noteq> []"
  with assms have "list_contacts S = Shown (sort_key name_key S)"
    by (rule list_contacts_text)
  moreover have "mset (sort_key name_key S) = mset S" by simp
  moreover have "sorted (map name_key (sort_key name_key S))" by (rule sorted_sort_key)
  moreover have "\<forall>k. filter (\<lambda>kv. name_key kv = k) (sort_key name_key S) =
                     filter (\<lambda>kv. name_key kv = k) S"
    by (simp add: sort_key_stable)
  ultimately show "\<exists>L. list_contacts S = Shown L \<and> mset L = mset S \<and>
      sorted (map name_key L) \<and>
      (\<forall>k. filter (\<lambda>kv. name_key kv = k) L = filter (\<lambda>kv. name_key kv = k) S)"
    by blast
next
  show "list_contacts bob_alice_store =
       Shown [(''2222222222'', JObj [(''name'', JStr ''alice'')]),
              (''1111111111'', JObj [(''name'', JStr ''Bob'')])]"
    by code_simp
qed

theorem list_contacts_sorted_witness:
  "list_all (\<lambda>(p, v). has_text_name v) bob_alice_store \<and>
   bob_alice_store \<noteq> [] \<and>
   (\<exists>L. list_contacts bob_alice_store = Shown L \<and>
        mset L = mset bob_alice_store \<and>
        sorted (map name_key L) \<and>
        (\<forall>k. filter (\<lambda>kv. name_key kv = k) L = filter (\<lambda>kv. name_key kv = k) bob_alice_store)) \<and>
   list_contacts bob_alice_store =
     Shown [(''2222222222'', JObj [(''name'', JStr ''alice'')]),
            (''1111111111'', JObj [(''name'', JStr ''Bob'')])]"
proof -
  have h: "list_all (\<lambda>(p, v). has_text_name v) bob_alice_store" by code_simp
  have n: "bob_alice_store \<noteq> []" by (simp add: bob_alice_store_def)
  from list_contacts_sorted [OF h] h n show ?thesis by blast
qed

section \<open>Phones as the program reads them\<close>

text \<open>
  Every phone the program validates has been through \<^verbatim>\<open>strip\<close>, and a stripped string
  does not end in a newline. On the strings the prompts produce, \<open>is_valid_phone\<close> is
  therefore exactly the ten-digit rule.
\<close>

lemma strip_last: "strip s \<noteq> [] \<Longrightarrow> \<not> is_space (last (strip s))"
proof -
  assume a: "strip s \<noteq> []"
  define u where "u = dropWhile is_space (rev (dropWhile is_space s))"
  have s: "strip s = rev u" by (simp add: strip_def u_def)
  with a have "u \<noteq> []" by simp
  then have "\<not> is_space (hd u)"
    unfolding u_def by (metis hd_dropWhile)
  moreover have "last (rev u) = hd u"
    using \<open>u \<noteq> []\<close> by (simp add: last_rev)
  ultimately show ?thesis by (simp add: s)
qed

lemma is_valid_phone_stripped:
  "is_valid_phone (strip s) \<longleftrightarrow> length (strip s) = 10 \<and> list_all is_decimal (strip s)"
proof -
  have "drop 10 (strip s) \<noteq> [newline]"
  proof
    assume d: "drop 10 (strip s) = [newline]"
    then have "length (drop 10 (strip s)) = 1" by simp
    then have len: "10 < length (strip s)" by simp
    then have n: "strip s \<noteq> []" by auto
    from len have "last (drop 10 (strip s)) = last (strip s)"
      by (rule last_drop)
    with d have "last (strip s) = newline" by simp
    moreover have "is_space newline" by code_simp
    ultimately show False using strip_last [OF n] by simp
  qed
  then show ?thesis by (simp add: is_valid_phone_iff)
qed

section \<open>Saving, then loading\<close>


























lemma length_encoded: "length (encode_str k) = Suc (Suc (length (concat (map escape_char k))))"
  by (simp add: encode_str_def)






text \<open>The text of the one-contact store, as \<^verbatim>\<open>json.dump\<close> writes it, and its reading.\<close>

lemma json_dump_sample:
  "json_dump 0 (JObj sample_store) =
     Some (''{'' @ [newline] @
           ''    '' @ [dquote] @ ''5551234567'' @ [dquote] @ '': {'' @ [newline] @
           ''        '' @ [dquote] @ ''name'' @ [dquote] @ '': '' @
                         [dquote] @ ''Ann Lee'' @ [dquote] @ '','' @ [newline] @
           ''        '' @ [dquote] @ ''email'' @ [dquote] @ '': '' @
                         [dquote] @ ''ann@example.com'' @ [dquote] @ [newline] @
           ''    }'' @ [newline] @
           ''}'')"
  by code_simp

lemma json_dump_escapes:
  "json_dump 0 (JStr [CHR ''a'', dquote, backslash, newline, CHR 0x01, CHR 0x7F, CHR 0xE9]) =
     Some ([dquote, CHR ''a'', backslash, dquote, backslash, backslash, backslash, CHR ''n''] @
           [backslash] @ ''u0001'' @ [CHR 0x7F, CHR 0xE9, dquote])"
  by code_simp

lemma json_loads_rejects:
  "json_loads [] = None" "json_loads ''{'' = None"
  "json_loads ([CHR ''{'', dquote, CHR ''a'', dquote, CHR ''}'']) = None"
  "json_loads ([dquote, newline, dquote]) = None"
  by code_simp+

lemma json_loads_later_value:
  "json_loads ([CHR ''{'', dquote, CHR ''a'', dquote, CHR '':'', dquote, CHR ''x'', dquote,
                CHR '','', dquote, CHR ''b'', dquote, CHR '':'', dquote, CHR ''y'', dquote,
                CHR '','', dquote, CHR ''a'', dquote, CHR '':'', dquote, CHR ''z'', dquote,
                CHR ''}'', newline]) =
     Some (JObj [(''a'', JStr ''z''), (''b'', JStr ''y'')])"
  by code_simp

lemma save_raised: "safe_save_contacts (Some e) S file = Some file"
  by (simp add: safe_save_contacts_def)



end
